theory Spec2Isabelle
  imports Complex_Main "HOL-Library.Sublist"
begin

section \<open>Python values\<close>

text \<open>
  The payment code is dynamically typed: the values of the \<open>details\<close> and \<open>order\<close>
  dictionaries can be any Python object. The model covers the values a caller can
  reasonably store there: \<open>None\<close>, booleans, integers, finite floats (by the rational
  number they denote), strings and lists. Strings are \<open>char list\<close>; for the ASCII
  contents used here \<open>length\<close> agrees with Python's \<open>len\<close>.
\<close>

datatype pyval =
    PNone
  | PBool bool
  | PInt int
  | PFloat rat
  | PStr string
  | PList "pyval list"

datatype py_error =
    KeyError string
  | TypeError
  | ValueError string

type_synonym pydict = "string \<rightharpoonup> pyval"

text \<open>Python's truth value of an object, as \<open>not details[field]\<close> tests it.\<close>

fun truthy :: "pyval \<Rightarrow> bool" where
  "truthy PNone = False"
| "truthy (PBool b) = b"
| "truthy (PInt i) = (i \<noteq> 0)"
| "truthy (PFloat r) = (r \<noteq> 0)"
| "truthy (PStr s) = (s \<noteq> [])"
| "truthy (PList xs) = (xs \<noteq> [])"

text \<open>Python's \<open>len\<close>: defined on strings and lists, a \<open>TypeError\<close> on the rest.\<close>

fun py_len :: "pyval \<Rightarrow> py_error + nat" where
  "py_len (PStr s) = Inr (length s)"
| "py_len (PList xs) = Inr (length xs)"
| "py_len PNone = Inl TypeError"
| "py_len (PBool b) = Inl TypeError"
| "py_len (PInt i) = Inl TypeError"
| "py_len (PFloat r) = Inl TypeError"

text \<open>\<open>v == "..."\<close> for a string literal: only an equal string compares equal.\<close>

fun py_eq_str :: "pyval \<Rightarrow> string \<Rightarrow> bool" where
  "py_eq_str (PStr s) t = (s = t)"
| "py_eq_str PNone t = False"
| "py_eq_str (PBool b) t = False"
| "py_eq_str (PInt i) t = False"
| "py_eq_str (PFloat r) t = False"
| "py_eq_str (PList xs) t = False"

text \<open>\<open>d.get(k, default)\<close>.\<close>

definition dict_get :: "pydict \<Rightarrow> string \<Rightarrow> pyval \<Rightarrow> pyval" where
  "dict_get d k dflt = (case d k of None \<Rightarrow> dflt | Some v \<Rightarrow> v)"

section \<open>The payment gateway\<close>

text \<open>
  A gateway is any object with a \<open>process(payment_method, payment_details, amount)\<close>
  method that returns a dictionary. The outcomes of the repository's gateways hold
  strings only, so a response is a dictionary from strings to strings. A gateway is
  modelled by the function its \<open>process\<close> computes.
\<close>

type_synonym response = "string \<rightharpoonup> string"

type_synonym gateway = "string \<Rightarrow> pydict \<Rightarrow> pyval \<Rightarrow> response"

text \<open>\<open>FakePaymentGateway.process\<close>\<close>

definition FakePaymentGateway_process :: gateway where
  "FakePaymentGateway_process payment_method payment_details amount =
     (if payment_method = ''credit_card'' then
        (if (case payment_details ''card_number'' of
               None \<Rightarrow> False
             | Some v \<Rightarrow> py_eq_str v ''1111222233334444'')
         then [''status'' \<mapsto> ''failure'', ''message'' \<mapsto> ''Card declined'']
         else [''status'' \<mapsto> ''success'', ''transaction_id'' \<mapsto> ''fake_txn_123''])
      else if payment_method = ''paypal'' then
        [''status'' \<mapsto> ''success'', ''transaction_id'' \<mapsto> ''fake_txn_456'']
      else [''status'' \<mapsto> ''failure'', ''message'' \<mapsto> ''Unsupported payment method''])"

section \<open>PaymentProcessing\<close>

record PaymentProcessing =
  available_gateways :: "string list"
  gateway :: gateway

text \<open>\<open>PaymentProcessing.__init__(gateway=None)\<close>\<close>

definition PaymentProcessing_init :: "gateway option \<Rightarrow> PaymentProcessing" where
  "PaymentProcessing_init g =
     \<lparr> available_gateways = [''credit_card'', ''paypal''],
       gateway = (case g of None \<Rightarrow> FakePaymentGateway_process | Some g' \<Rightarrow> g') \<rparr>"

text \<open>
  The loop over \<open>required_fields\<close> in \<open>validate_credit_card\<close>: \<open>False\<close> as soon as
  a field is missing from the dictionary or its value is falsy, \<open>True\<close> when the loop
  runs to its end.
\<close>

fun fields_present :: "string list \<Rightarrow> pydict \<Rightarrow> bool" where
  "fields_present [] details = True"
| "fields_present (field # rest) details =
     (case details field of
        None \<Rightarrow> False
      | Some v \<Rightarrow> if \<not> truthy v then False else fields_present rest details)"

definition required_fields :: "string list" where
  "required_fields = [''card_number'', ''expiry_date'', ''cvv'']"

text \<open>
  \<open>PaymentProcessing.validate_credit_card\<close>. The test
  \<open>len(card_number) != 16 or len(cvv) != 3\<close> evaluates \<open>len(card_number)\<close> first and
  \<open>len(cvv)\<close> only when the card number has 16 elements; either call raises
  \<open>TypeError\<close> on a value that has no length.
\<close>

definition validate_credit_card :: "pydict \<Rightarrow> py_error + bool" where
  "validate_credit_card details =
     (if \<not> fields_present required_fields details then Inr False
      else
        let card_number = dict_get details ''card_number'' (PStr '''');
            cvv = dict_get details ''cvv'' (PStr '''')
        in (case py_len card_number of
              Inl e \<Rightarrow> Inl e
            | Inr n \<Rightarrow>
                if n \<noteq> 16 then Inr False
                else (case py_len cvv of
                        Inl e \<Rightarrow> Inl e
                      | Inr k \<Rightarrow> if k \<noteq> 3 then Inr False else Inr True)))"

text \<open>
  \<open>PaymentProcessing.validate_payment_method\<close>: the two \<open>raise ValueError(...)\<close> are
  \<open>Inl\<close> results; an exception of \<open>validate_credit_card\<close> propagates.
\<close>

definition validate_payment_method ::
  "PaymentProcessing \<Rightarrow> string \<Rightarrow> pydict \<Rightarrow> py_error + bool" where
  "validate_payment_method self payment_method payment_details =
     (if payment_method \<notin> set (available_gateways self)
      then Inl (ValueError ''Invalid payment method'')
      else if payment_method = ''credit_card'' then
        (case validate_credit_card payment_details of
           Inl e \<Rightarrow> Inl e
         | Inr ok \<Rightarrow>
             if \<not> ok then Inl (ValueError ''Invalid credit card details'')
             else Inr True)
      else Inr True)"

text \<open>
  \<open>PaymentProcessing.process_payment\<close>. The second component of the result is the
  list of calls made to the gateway's \<open>process\<close>, each with its three arguments.
  \<open>response["status"]\<close> and \<open>response['message']\<close> raise \<open>KeyError\<close> on a missing
  key.
\<close>

type_synonym gateway_call = "string \<times> pydict \<times> pyval"

definition process_payment ::
  "PaymentProcessing \<Rightarrow> pydict \<Rightarrow> string \<Rightarrow> pydict \<Rightarrow> (py_error + string) \<times> gateway_call list" where
  "process_payment self order payment_method payment_details =
     (if payment_method \<notin> set (available_gateways self)
      then (Inr ''Error: Invalid payment method'', [])
      else
        let amount = dict_get order ''total_amount'' (PInt 0);
            response = gateway self payment_method payment_details amount;
            calls = [(payment_method, payment_details, amount)]
        in (case response ''status'' of
              None \<Rightarrow> (Inl (KeyError ''status''), calls)
            | Some status \<Rightarrow>
                if status = ''success''
                then (Inr ''Payment successful, Order confirmed'', calls)
                else (case response ''message'' of
                        None \<Rightarrow> (Inl (KeyError ''message''), calls)
                      | Some message \<Rightarrow> (Inr (''Payment failed: '' @ message), calls))))"

text \<open>
  A result of \<open>process_payment\<close> that is a failure message containing
  \<open>Card declined\<close>: a returned string that starts with \<open>Payment failed: \<close> and has
  \<open>Card declined\<close> as a contiguous part.
\<close>

definition declined_failure :: "py_error + string \<Rightarrow> bool" where
  "declined_failure r =
     (case r of
        Inl e \<Rightarrow> False
      | Inr msg \<Rightarrow> prefix ''Payment failed: '' msg \<and> sublist ''Card declined'' msg)"

text \<open>The strings among the values.\<close>

fun is_str :: "pyval \<Rightarrow> bool" where
  "is_str (PStr s) = True"
| "is_str PNone = False"
| "is_str (PBool b) = False"
| "is_str (PInt i) = False"
| "is_str (PFloat r) = False"
| "is_str (PList xs) = False"

text \<open>A field of a dictionary is a string whenever it is there.\<close>

definition str_field :: "pydict \<Rightarrow> string \<Rightarrow> bool" where
  "str_field d k = (case d k of None \<Rightarrow> True | Some v \<Rightarrow> is_str v)"

text \<open>
  A field is present and not empty: the key is in the dictionary and its value is
  truthy (for a string: not the empty string).
\<close>

definition filled :: "pydict \<Rightarrow> string \<Rightarrow> bool" where
  "filled d k = (case d k of None \<Rightarrow> False | Some v \<Rightarrow> truthy v)"

text \<open>The length of a string field (0 for any other value, or none).\<close>

definition field_length :: "pydict \<Rightarrow> string \<Rightarrow> nat" where
  "field_length d k = (case d k of Some (PStr s) \<Rightarrow> length s | _ \<Rightarrow> 0)"

section \<open>Cart and order placement\<close>

text \<open>
  \<open>main.py\<close> and the tests import \<open>Cart\<close>, \<open>OrderPlacement\<close>, \<open>UserProfile\<close>,
  \<open>RestaurantMenu\<close> and \<open>PaymentMethod\<close> from the module \<open>testOrder_Placement\<close>,
  which is not among the source files: only its callers are. Every definition of this
  section is therefore modelled from the specification (sections 3, 4.1 and 4.2), and
  says so. Money is a decimal, modelled exactly by \<open>rat\<close>.
\<close>

text \<open>
  Modelled from the spec: the class of a cart line is missing. \<open>CartLine\<close> is
  \<open>{name, unit_price, quantity}\<close> with the derived \<open>subtotal = unit_price * quantity\<close>.
\<close>

record CartLine =
  name :: string
  unit_price :: rat
  quantity :: int

definition line_subtotal :: "CartLine \<Rightarrow> rat" where
  "line_subtotal l = unit_price l * of_int (quantity l)"

text \<open>
  Modelled from the spec: the class \<open>Cart\<close> is missing. A cart is an ordered
  collection of lines.
\<close>

type_synonym Cart = "CartLine list"

text \<open>
  Modelled from the spec: the body of \<open>Cart.add_item\<close> is missing. "If \<open>name\<close>
  already has a line, increment its quantity by \<open>quantity\<close> (price is taken from the
  latest call)"; otherwise a new line is added at the end.
\<close>

fun add_line :: "string \<Rightarrow> rat \<Rightarrow> int \<Rightarrow> Cart \<Rightarrow> Cart" where
  "add_line n p q [] = [\<lparr> name = n, unit_price = p, quantity = q \<rparr>]"
| "add_line n p q (l # ls) =
     (if name l = n
      then l\<lparr> unit_price := p, quantity := quantity l + q \<rparr> # ls
      else l # add_line n p q ls)"

text \<open>
  Modelled from the spec: the quantity of the line of a name (0 when there is none),
  which the confirmation of \<open>Cart.add_item\<close> reports.
\<close>

fun quantity_of :: "Cart \<Rightarrow> string \<Rightarrow> int" where
  "quantity_of [] n = 0"
| "quantity_of (l # ls) n = (if name l = n then quantity l else quantity_of ls n)"

text \<open>
  Modelled from the spec: \<open>Cart.add_item(name, unit_price, quantity)\<close> is missing.
  "Quantity must be a positive integer; unit_price must be non-negative": a call
  outside these bounds has no result here (\<open>None\<close>), the spec does not say what it
  does. Otherwise the result is the new cart with what the confirmation message
  identifies: the item and its new quantity.
\<close>

definition add_item :: "Cart \<Rightarrow> string \<Rightarrow> rat \<Rightarrow> int \<Rightarrow> (Cart \<times> string \<times> int) option" where
  "add_item c n p q =
     (if q < 1 then None
      else if p < 0 then None
      else let c' = add_line n p q c in Some (c', n, quantity_of c' n))"

text \<open>
  Modelled from the spec: a sequence of \<open>add_item\<close> calls with the same name, each
  call given by its unit price and quantity, in the order of the calls.
\<close>

fun add_items :: "Cart \<Rightarrow> string \<Rightarrow> (rat \<times> int) list \<Rightarrow> Cart option" where
  "add_items c n [] = Some c"
| "add_items c n (pq # calls) =
     (case add_item c n (fst pq) (snd pq) of
        None \<Rightarrow> None
      | Some r \<Rightarrow> add_items (fst r) n calls)"

text \<open>The calls of a sequence that \<open>add_item\<close> admits.\<close>

fun admissible :: "(rat \<times> int) list \<Rightarrow> bool" where
  "admissible [] = True"
| "admissible (pq # calls) = (0 \<le> fst pq \<and> 1 \<le> snd pq \<and> admissible calls)"

text \<open>The lines of a cart for one name.\<close>

definition lines_of :: "Cart \<Rightarrow> string \<Rightarrow> CartLine list" where
  "lines_of c n = filter (\<lambda>l. name l = n) c"

text \<open>
  Modelled from the spec: \<open>Cart.view_cart\<close> is missing. It produces the line views
  \<open>{name, quantity, subtotal}\<close> in the current order.
\<close>

record LineView =
  view_name :: string
  view_quantity :: int
  view_subtotal :: rat

definition view_cart :: "Cart \<Rightarrow> LineView list" where
  "view_cart c =
     map (\<lambda>l. \<lparr> view_name = name l, view_quantity = quantity l,
                view_subtotal = line_subtotal l \<rparr>) c"

text \<open>
  Modelled from the spec: the subtotal of a cart is missing. It is the "sum of all line
  subtotals; is 0 for an empty cart".
\<close>

definition cart_subtotal :: "Cart \<Rightarrow> rat" where
  "cart_subtotal c = sum_list (map line_subtotal c)"

text \<open>
  Modelled from the spec: the classes \<open>UserProfile\<close> and its order records are
  missing. \<open>OrderRecord\<close> is \<open>{order_id, items, total}\<close>; \<open>UserProfile\<close> is
  \<open>{delivery_address, order_history}\<close>, where a missing address is \<open>None\<close>.
\<close>

record OrderRecord =
  order_id :: nat
  items :: "string list"
  order_total :: rat

record UserProfile =
  delivery_address :: "string option"
  order_history :: "OrderRecord list"

text \<open>
  Modelled from the spec: \<open>PaymentMethod\<close> is missing: an opaque marker that
  "carries no required fields".
\<close>

datatype PaymentMethod = PaymentMethod

text \<open>
  Modelled from the spec: the class \<open>OrderPlacement\<close> is missing. It binds one cart,
  one user profile and one menu and holds the special instructions. A
  \<open>PaymentProcessing\<close> collaborator may be wired in; the spec says of it only that it
  can reject the payment, so it is modelled by its verdict (\<open>True\<close>: accepted).
\<close>

record OrderPlacement =
  cart :: Cart
  user_profile :: UserProfile
  restaurant_menu :: "string list"
  special_instructions :: string
  payment_collaborator :: "(PaymentMethod \<Rightarrow> pydict option \<Rightarrow> bool) option"

text \<open>
  Modelled from the spec: the policy constants of the missing \<open>OrderPlacement\<close>: the
  tax rate, the flat delivery fee and the fixed offset of the estimated delivery. The
  spec leaves their values to configuration, so they are parameters.
\<close>

record Policy =
  tax_rate :: rat
  flat_delivery_fee :: rat
  delivery_offset :: nat

text \<open>
  Modelled from the spec: \<open>TotalsBreakdown\<close> is \<open>{subtotal, tax, delivery_fee, total}\<close>,
  computed "from the cart's current subtotal using fixed policy constants: tax rate and
  flat delivery fee".
\<close>

record TotalsBreakdown =
  subtotal :: rat
  tax :: rat
  delivery_fee :: rat
  total :: rat

definition tax_of :: "Policy \<Rightarrow> rat \<Rightarrow> rat" where
  "tax_of pol s = tax_rate pol * s"

definition delivery_fee_of :: "Policy \<Rightarrow> rat \<Rightarrow> rat" where
  "delivery_fee_of pol s = flat_delivery_fee pol"

definition totals :: "Policy \<Rightarrow> rat \<Rightarrow> TotalsBreakdown" where
  "totals pol s =
     \<lparr> subtotal = s, tax = tax_of pol s, delivery_fee = delivery_fee_of pol s,
       total = s + tax_of pol s + delivery_fee_of pol s \<rparr>"

text \<open>
  Modelled from the spec: \<open>OrderPlacement.proceed_to_checkout\<close> is missing. It
  returns \<open>{items, total_info, delivery_address}\<close> from the cart's current state and
  changes nothing.
\<close>

record Checkout =
  checkout_items :: "LineView list"
  total_info :: TotalsBreakdown
  checkout_address :: "string option"

definition proceed_to_checkout :: "Policy \<Rightarrow> OrderPlacement \<Rightarrow> Checkout" where
  "proceed_to_checkout pol op =
     \<lparr> checkout_items = view_cart (cart op),
       total_info = totals pol (cart_subtotal (cart op)),
       checkout_address = delivery_address (user_profile op) \<rparr>"

text \<open>
  Modelled from the spec: the result \<open>{success, message}\<close> of the missing
  \<open>validate_order\<close> and \<open>confirm_order\<close>. The spec gives a message for every failure
  and for a confirmation, and fixes the wording of the latter only; the wording of the
  failures here follows section 7 of the spec.
\<close>

record Outcome =
  success :: bool
  message :: "string option"

text \<open>
  Modelled from the spec: \<open>OrderPlacement.validate_order\<close> is missing. It "fails when
  the cart has zero lines or when the delivery address is empty/missing. Otherwise
  succeeds."
\<close>

definition address_given :: "UserProfile \<Rightarrow> bool" where
  "address_given u = (case delivery_address u of None \<Rightarrow> False | Some a \<Rightarrow> a \<noteq> [])"

definition validate_order :: "OrderPlacement \<Rightarrow> Outcome" where
  "validate_order op =
     (if cart op = [] then \<lparr> success = False, message = Some ''empty cart'' \<rparr>
      else if \<not> address_given (user_profile op)
      then \<lparr> success = False, message = Some ''missing address'' \<rparr>
      else \<lparr> success = True, message = None \<rparr>)"

text \<open>
  Modelled from the spec: the generation of the "unique order identifier" is missing:
  here the successor of the largest identifier in the history.
\<close>

definition fresh_order_id :: "OrderRecord list \<Rightarrow> nat" where
  "fresh_order_id h = Suc (fold max (map order_id h) 0)"

text \<open>
  Modelled from the spec: \<open>OrderPlacement.confirm_order(payment_method,
  payment_details=None)\<close> is missing. It re-validates the order and fails with the
  validation's message when the order is invalid; the payment is authorized unless a
  wired-in collaborator rejects it; a confirmation returns
  \<open>{success: true, order_id, estimated_delivery, message: "Order confirmed"}\<close> with the
  estimated delivery at now plus the fixed offset, and appends an order record to the
  history of the user profile. The cart is left as it is (the spec mandates no
  clearing). The result is the returned value and the placement after the call.
\<close>

record Confirmation = Outcome +
  receipt_order_id :: "nat option"
  estimated_delivery :: "nat option"

definition confirm_order ::
  "Policy \<Rightarrow> nat \<Rightarrow> OrderPlacement \<Rightarrow> PaymentMethod \<Rightarrow> pydict option
     \<Rightarrow> Confirmation \<times> OrderPlacement" where
  "confirm_order pol now op payment_method payment_details =
     (let v = validate_order op in
      if \<not> success v
      then (\<lparr> success = False, message = message v,
              receipt_order_id = None, estimated_delivery = None \<rparr>, op)
      else if (case payment_collaborator op of
                 None \<Rightarrow> False
               | Some accepts \<Rightarrow> \<not> accepts payment_method payment_details)
      then (\<lparr> success = False, message = Some ''payment rejected'',
              receipt_order_id = None, estimated_delivery = None \<rparr>, op)
      else
        let u = user_profile op;
            oid = fresh_order_id (order_history u);
            r = \<lparr> order_id = oid, items = map name (cart op),
                  order_total = total (total_info (proceed_to_checkout pol op)) \<rparr>
        in (\<lparr> success = True, message = Some ''Order confirmed'',
              receipt_order_id = Some oid,
              estimated_delivery = Some (now + delivery_offset pol) \<rparr>,
            op\<lparr> user_profile := u\<lparr> order_history := order_history u @ [r] \<rparr> \<rparr>))"

section \<open>Payment processing with the default gateway\<close>

lemma fake_credit_card:
  "process_payment (PaymentProcessing_init None) order ''credit_card'' details =
     (if details ''card_number'' = Some (PStr ''1111222233334444'')
      then Inr ''Payment failed: Card declined''
      else Inr ''Payment successful, Order confirmed'',
      [(''credit_card'', details, dict_get order ''total_amount'' (PInt 0))])"
proof (cases "details ''card_number''")
  case None
  then show ?thesis
    by (simp add: process_payment_def PaymentProcessing_init_def FakePaymentGateway_process_def)
next
  case (Some v)
  then show ?thesis
    by (cases v)
       (simp_all add: process_payment_def PaymentProcessing_init_def
          FakePaymentGateway_process_def)
qed

lemma fake_paypal:
  "process_payment (PaymentProcessing_init None) order ''paypal'' details =
     (Inr ''Payment successful, Order confirmed'',
      [(''paypal'', details, dict_get order ''total_amount'' (PInt 0))])"
  by (simp add: process_payment_def PaymentProcessing_init_def FakePaymentGateway_process_def)

lemma declined_failure_declined:
  "declined_failure (Inr ''Payment failed: Card declined'')"
  by (simp add: declined_failure_def sublist_Cons_right)

lemma declined_failure_success:
  "\<not> declined_failure (Inr ''Payment successful, Order confirmed'')"
  by (simp add: declined_failure_def)

text \<open>
  C1. With the default \<open>FakePaymentGateway\<close>, for every order and every details
  dictionary, \<open>process_payment(order, "credit_card", details)\<close> returns a failure
  message containing \<open>Card declined\<close> if and only if the \<open>card_number\<close> of the details
  is the string \<open>1111222233334444\<close>; for every other card number (so for every other
  16-digit one) it returns the success message; and for \<open>paypal\<close> it returns the
  success message whatever the details are.
\<close>

theorem fake_gateway_declines_reserved_card:
  "(declined_failure
      (fst (process_payment (PaymentProcessing_init None) order ''credit_card'' details))
      \<longleftrightarrow> details ''card_number'' = Some (PStr ''1111222233334444''))
   \<and> (details ''card_number'' \<noteq> Some (PStr ''1111222233334444'')
        \<longrightarrow> fst (process_payment (PaymentProcessing_init None) order ''credit_card'' details)
              = Inr ''Payment successful, Order confirmed'')
   \<and> fst (process_payment (PaymentProcessing_init None) order ''paypal'' details)
        = Inr ''Payment successful, Order confirmed''"
  by (simp add: fake_credit_card fake_paypal declined_failure_declined
        declined_failure_success)

theorem fake_gateway_declines_reserved_card_witness:
  "declined_failure (fst (process_payment (PaymentProcessing_init None)
       [''total_amount'' \<mapsto> PFloat 100] ''credit_card''
       [''card_number'' \<mapsto> PStr ''1111222233334444'', ''expiry_date'' \<mapsto> PStr ''12/25'',
        ''cvv'' \<mapsto> PStr ''123'']))
   \<and> fst (process_payment (PaymentProcessing_init None)
       [''total_amount'' \<mapsto> PFloat 100] ''credit_card''
       [''card_number'' \<mapsto> PStr ''1234567812345678'', ''expiry_date'' \<mapsto> PStr ''12/25'',
        ''cvv'' \<mapsto> PStr ''123'']) = Inr ''Payment successful, Order confirmed''"
  using fake_gateway_declines_reserved_card
          [of "[''total_amount'' \<mapsto> PFloat 100]"
              "[''card_number'' \<mapsto> PStr ''1111222233334444'',
                ''expiry_date'' \<mapsto> PStr ''12/25'', ''cvv'' \<mapsto> PStr ''123'']"]
        fake_gateway_declines_reserved_card
          [of "[''total_amount'' \<mapsto> PFloat 100]"
              "[''card_number'' \<mapsto> PStr ''1234567812345678'',
                ''expiry_date'' \<mapsto> PStr ''12/25'', ''cvv'' \<mapsto> PStr ''123'']"]
  by simp

section \<open>Payment processing with any gateway\<close>

lemma process_payment_unsupported:
  "payment_method \<noteq> ''credit_card'' \<Longrightarrow> payment_method \<noteq> ''paypal'' \<Longrightarrow>
   process_payment (PaymentProcessing_init g) order payment_method details =
     (Inr ''Error: Invalid payment method'', [])"
  by (simp add: process_payment_def PaymentProcessing_init_def)

lemma process_payment_supported:
  "payment_method = ''credit_card'' \<or> payment_method = ''paypal'' \<Longrightarrow>
   process_payment (PaymentProcessing_init g) order payment_method details =
     ((case gateway (PaymentProcessing_init g) payment_method details
              (dict_get order ''total_amount'' (PInt 0)) ''status'' of
         None \<Rightarrow> Inl (KeyError ''status'')
       | Some status \<Rightarrow>
           if status = ''success'' then Inr ''Payment successful, Order confirmed''
           else (case gateway (PaymentProcessing_init g) payment_method details
                        (dict_get order ''total_amount'' (PInt 0)) ''message'' of
                   None \<Rightarrow> Inl (KeyError ''message'')
                 | Some reason \<Rightarrow> Inr (''Payment failed: '' @ reason))),
      [(payment_method, details, dict_get order ''total_amount'' (PInt 0))])"
  by (erule disjE)
     (simp_all add: process_payment_def PaymentProcessing_init_def Let_def split: option.splits)

text \<open>
  C2 (as amended). For every order, method and details, and every gateway: if the
  method is neither \<open>credit_card\<close> nor \<open>paypal\<close>, \<open>process_payment\<close> returns
  \<open>Error: Invalid payment method\<close> and makes no call to the gateway. Otherwise it
  calls the gateway's \<open>process\<close> exactly once, with the method, the details and the
  amount read from the order's \<open>total_amount\<close> (0 when the order has none); it returns
  \<open>Payment successful, Order confirmed\<close> when the status of the outcome is
  \<open>success\<close>, and \<open>Payment failed: \<close> followed by the gateway's message for any other
  outcome that has a status and carries a message.
\<close>

theorem process_payment_delegates:
  "(payment_method \<noteq> ''credit_card'' \<and> payment_method \<noteq> ''paypal'' \<longrightarrow>
      process_payment (PaymentProcessing_init g) order payment_method details
        = (Inr ''Error: Invalid payment method'', []))
   \<and> (payment_method = ''credit_card'' \<or> payment_method = ''paypal'' \<longrightarrow>
        snd (process_payment (PaymentProcessing_init g) order payment_method details)
          = [(payment_method, details, dict_get order ''total_amount'' (PInt 0))]
        \<and> (gateway (PaymentProcessing_init g) payment_method details
              (dict_get order ''total_amount'' (PInt 0)) ''status'' = Some ''success'' \<longrightarrow>
             fst (process_payment (PaymentProcessing_init g) order payment_method details)
               = Inr ''Payment successful, Order confirmed'')
        \<and> (\<forall>status reason.
              gateway (PaymentProcessing_init g) payment_method details
                (dict_get order ''total_amount'' (PInt 0)) ''status'' = Some status
              \<and> status \<noteq> ''success''
              \<and> gateway (PaymentProcessing_init g) payment_method details
                  (dict_get order ''total_amount'' (PInt 0)) ''message'' = Some reason \<longrightarrow>
              fst (process_payment (PaymentProcessing_init g) order payment_method details)
                = Inr (''Payment failed: '' @ reason)))"
proof (cases "payment_method = ''credit_card'' \<or> payment_method = ''paypal''")
  case True
  show ?thesis
    using True by (simp add: process_payment_supported [OF True])
next
  case False
  then show ?thesis
    by (simp add: process_payment_unsupported)
qed

lemma fake_gateway_declined_response:
  "gateway (PaymentProcessing_init None) ''credit_card''
      [''card_number'' \<mapsto> PStr ''1111222233334444''] (PFloat 100)
     = [''status'' \<mapsto> ''failure'', ''message'' \<mapsto> ''Card declined'']"
  by (simp add: PaymentProcessing_init_def FakePaymentGateway_process_def)

theorem process_payment_delegates_witness:
  "process_payment (PaymentProcessing_init None) [''total_amount'' \<mapsto> PFloat 50]
      ''bitcoin'' Map.empty
     = (Inr ''Error: Invalid payment method'', [])
   \<and> process_payment (PaymentProcessing_init None) [''total_amount'' \<mapsto> PFloat 100]
        ''credit_card'' [''card_number'' \<mapsto> PStr ''1111222233334444'']
     = (Inr ''Payment failed: Card declined'',
        [(''credit_card'', [''card_number'' \<mapsto> PStr ''1111222233334444''], PFloat 100)])"
  using process_payment_delegates
          [of "''bitcoin''" None "[''total_amount'' \<mapsto> PFloat 50]" Map.empty]
        process_payment_delegates
          [of "''credit_card''" None "[''total_amount'' \<mapsto> PFloat 100]"
              "[''card_number'' \<mapsto> PStr ''1111222233334444'']"]
  by (simp add: dict_get_def fake_gateway_declined_response prod_eq_iff)

text \<open>
  The claim as first stated promised the failure string for any outcome other than
  success. A gateway whose failure outcome carries no message makes
  \<open>response['message']\<close> raise \<open>KeyError\<close> instead, after the one call.
\<close>

theorem process_payment_missing_message_counterexample:
  "process_payment (PaymentProcessing_init (Some (\<lambda>m d a. [''status'' \<mapsto> ''failure''])))
      [''total_amount'' \<mapsto> PFloat 50] ''paypal'' Map.empty
     = (Inl (KeyError ''message''), [(''paypal'', Map.empty, PFloat 50)])"
  by (simp add: process_payment_def PaymentProcessing_init_def dict_get_def)

section \<open>Validation of payment details\<close>

lemma fields_present_required:
  "fields_present required_fields details \<longleftrightarrow>
     filled details ''card_number'' \<and> filled details ''expiry_date'' \<and> filled details ''cvv''"
  by (auto simp add: required_fields_def filled_def split: option.splits)

text \<open>
  C3 (as amended). For every details dictionary whose \<open>card_number\<close> and \<open>cvv\<close>, when
  present, are strings: \<open>validate_credit_card(details)\<close> returns \<open>False\<close> when any of
  the fields \<open>card_number\<close>, \<open>expiry_date\<close>, \<open>cvv\<close> is absent or empty (falsy), or
  when the length of the card number is not 16, or when the length of the CVV is not
  3; and it returns \<open>True\<close> otherwise.
\<close>

theorem validate_credit_card_strings:
  assumes "str_field details ''card_number''" and "str_field details ''cvv''"
  shows "validate_credit_card details =
           Inr (filled details ''card_number'' \<and> filled details ''expiry_date''
                \<and> filled details ''cvv''
                \<and> field_length details ''card_number'' = 16
                \<and> field_length details ''cvv'' = 3)"
proof (cases "fields_present required_fields details")
  case False
  then show ?thesis
    by (auto simp add: validate_credit_card_def fields_present_required)
next
  case True
  then obtain cn cv where cn: "details ''card_number'' = Some cn"
    and cv: "details ''cvv'' = Some cv"
    by (auto simp add: fields_present_required filled_def split: option.splits)
  from assms cn cv obtain s t where s: "cn = PStr s" and t: "cv = PStr t"
    by (cases cn; cases cv) (simp_all add: str_field_def)
  from True show ?thesis
    by (simp add: validate_credit_card_def dict_get_def field_length_def cn cv s t
          fields_present_required)
qed

theorem validate_credit_card_strings_witness:
  "validate_credit_card
     [''card_number'' \<mapsto> PStr ''1234567812345678'', ''expiry_date'' \<mapsto> PStr ''12/25'',
      ''cvv'' \<mapsto> PStr ''123''] = Inr True
   \<and> validate_credit_card
     [''card_number'' \<mapsto> PStr ''1234'', ''expiry_date'' \<mapsto> PStr ''12/25'',
      ''cvv'' \<mapsto> PStr ''12''] = Inr False
   \<and> validate_credit_card [''card_number'' \<mapsto> PStr ''1234567812345678''] = Inr False"
  using validate_credit_card_strings
          [of "[''card_number'' \<mapsto> PStr ''1234567812345678'',
                ''expiry_date'' \<mapsto> PStr ''12/25'', ''cvv'' \<mapsto> PStr ''123'']"]
        validate_credit_card_strings
          [of "[''card_number'' \<mapsto> PStr ''1234'', ''expiry_date'' \<mapsto> PStr ''12/25'',
                ''cvv'' \<mapsto> PStr ''12'']"]
        validate_credit_card_strings
          [of "[''card_number'' \<mapsto> PStr ''1234567812345678'']"]
  by (simp add: str_field_def filled_def field_length_def)

text \<open>
  The claim as first stated promised \<open>True\<close> whenever the three fields are present
  with a card number of length 16 and a CVV of length 3. The loop over the required
  fields also rejects a field that is present and empty: here the expiry date.
\<close>

theorem validate_credit_card_empty_expiry_counterexample:
  "length ''1234567812345678'' = 16 \<and> length ''123'' = 3
   \<and> validate_credit_card
        [''card_number'' \<mapsto> PStr ''1234567812345678'', ''expiry_date'' \<mapsto> PStr '''',
         ''cvv'' \<mapsto> PStr ''123''] = Inr False"
  by (simp add: validate_credit_card_def required_fields_def)

text \<open>
  The branches of \<open>validate_payment_method\<close> on details for which
  \<open>validate_credit_card\<close> returns a value: an unsupported method fails with
  \<open>Invalid payment method\<close>; \<open>credit_card\<close> with details that the card check
  answers with \<open>False\<close> fails with \<open>Invalid credit card details\<close>; \<open>True\<close> is
  returned exactly when the method is \<open>paypal\<close>, or \<open>credit_card\<close> with details that
  the card check answers with \<open>True\<close>; \<open>False\<close> is never returned.
\<close>

lemma validate_payment_method_cases:
  "(payment_method \<noteq> ''credit_card'' \<and> payment_method \<noteq> ''paypal'' \<longrightarrow>
      validate_payment_method (PaymentProcessing_init g) payment_method details
        = Inl (ValueError ''Invalid payment method''))
   \<and> (payment_method = ''credit_card'' \<and> validate_credit_card details = Inr False \<longrightarrow>
        validate_payment_method (PaymentProcessing_init g) payment_method details
          = Inl (ValueError ''Invalid credit card details''))
   \<and> (validate_payment_method (PaymentProcessing_init g) payment_method details = Inr True
        \<longleftrightarrow> payment_method = ''paypal''
            \<or> (payment_method = ''credit_card'' \<and> validate_credit_card details = Inr True))
   \<and> validate_payment_method (PaymentProcessing_init g) payment_method details \<noteq> Inr False"
  by (auto simp add: validate_payment_method_def PaymentProcessing_init_def
        split: sum.splits)

lemma validate_payment_method_cases_examples:
  "validate_payment_method (PaymentProcessing_init None) ''bitcoin''
     [''card_number'' \<mapsto> PStr ''1234567812345678'', ''expiry_date'' \<mapsto> PStr ''12/25'',
      ''cvv'' \<mapsto> PStr ''123''] = Inl (ValueError ''Invalid payment method'')
   \<and> validate_payment_method (PaymentProcessing_init None) ''credit_card''
     [''card_number'' \<mapsto> PStr ''1234'', ''expiry_date'' \<mapsto> PStr ''12/25'',
      ''cvv'' \<mapsto> PStr ''12''] = Inl (ValueError ''Invalid credit card details'')
   \<and> validate_payment_method (PaymentProcessing_init None) ''credit_card''
     [''card_number'' \<mapsto> PStr ''1234567812345678'', ''expiry_date'' \<mapsto> PStr ''12/25'',
      ''cvv'' \<mapsto> PStr ''123''] = Inr True"
  using validate_payment_method_cases
          [of "''bitcoin''" None
              "[''card_number'' \<mapsto> PStr ''1234567812345678'',
                ''expiry_date'' \<mapsto> PStr ''12/25'', ''cvv'' \<mapsto> PStr ''123'']"]
        validate_payment_method_cases
          [of "''credit_card''" None
              "[''card_number'' \<mapsto> PStr ''1234'', ''expiry_date'' \<mapsto> PStr ''12/25'',
                ''cvv'' \<mapsto> PStr ''12'']"]
        validate_payment_method_cases
          [of "''credit_card''" None
              "[''card_number'' \<mapsto> PStr ''1234567812345678'',
                ''expiry_date'' \<mapsto> PStr ''12/25'', ''cvv'' \<mapsto> PStr ''123'']"]
  by (simp add: validate_credit_card_def required_fields_def dict_get_def)

text \<open>
  C4. The claim: for every method and details, \<open>validate_payment_method\<close> fails with
  an invalid-method error on an unsupported method, fails with an invalid-card error
  when the method is \<open>credit_card\<close> and \<open>validate_credit_card(details)\<close> does not
  pass, and returns \<open>True\<close> only when fully valid; the docstring of the method says
  the same (it raises \<open>ValueError\<close> if the payment details are invalid). The code
  does not do that on details whose card number has no length. On
  \<open>{card_number: 1234567812345678, expiry_date: "12/25", cvv: "123"}\<close>, the card
  number an integer, every required field is present and truthy, \<open>len(card_number)\<close>
  raises \<open>TypeError\<close> inside \<open>validate_credit_card\<close>, and
  \<open>validate_payment_method("credit_card", details)\<close> passes the \<open>TypeError\<close> on: it
  does not fail with the error \<open>Invalid credit card details\<close>.
\<close>

theorem validate_payment_method_integer_card_number:
  "validate_credit_card
     [''card_number'' \<mapsto> PInt 1234567812345678, ''expiry_date'' \<mapsto> PStr ''12/25'',
      ''cvv'' \<mapsto> PStr ''123''] = Inl TypeError
   \<and> validate_payment_method (PaymentProcessing_init None) ''credit_card''
     [''card_number'' \<mapsto> PInt 1234567812345678, ''expiry_date'' \<mapsto> PStr ''12/25'',
      ''cvv'' \<mapsto> PStr ''123''] = Inl TypeError
   \<and> validate_payment_method (PaymentProcessing_init None) ''credit_card''
     [''card_number'' \<mapsto> PInt 1234567812345678, ''expiry_date'' \<mapsto> PStr ''12/25'',
      ''cvv'' \<mapsto> PStr ''123''] \<noteq> Inl (ValueError ''Invalid credit card details'')"
  by (simp add: validate_payment_method_def PaymentProcessing_init_def
        validate_credit_card_def required_fields_def dict_get_def)

text \<open>
  C9. \<open>process_payment\<close> performs no validation of the payment details: on the details
  \<open>{card_number: "1234567812345678"}\<close>, with no expiry date and no CVV,
  \<open>validate_credit_card\<close> returns \<open>False\<close>, and yet
  \<open>process_payment(order, "credit_card", details)\<close> with the default gateway returns
  \<open>Payment successful, Order confirmed\<close>, for every order.
\<close>

theorem process_payment_skips_validation:
  "validate_credit_card [''card_number'' \<mapsto> PStr ''1234567812345678''] = Inr False
   \<and> fst (process_payment (PaymentProcessing_init None) order ''credit_card''
            [''card_number'' \<mapsto> PStr ''1234567812345678''])
       = Inr ''Payment successful, Order confirmed''"
  by (simp add: validate_credit_card_def required_fields_def fake_credit_card)

text \<open>
  C10. For every order without a \<open>total_amount\<close> key, every supported method and every
  details dictionary, \<open>process_payment\<close> calls the gateway with the amount 0 and
  gives the result it gives for the same order with a total of 0, whatever the gateway
  is: the missing key raises nothing. With the default gateway the result is a returned
  string.
\<close>

theorem process_payment_without_total:
  assumes "order ''total_amount'' = None"
    and "payment_method = ''credit_card'' \<or> payment_method = ''paypal''"
  shows "snd (process_payment (PaymentProcessing_init g) order payment_method details)
           = [(payment_method, details, PInt 0)]
         \<and> fst (process_payment (PaymentProcessing_init g) order payment_method details)
           = fst (process_payment (PaymentProcessing_init g)
                    (order(''total_amount'' \<mapsto> PInt 0)) payment_method details)
         \<and> (\<exists>msg. fst (process_payment (PaymentProcessing_init None) order payment_method details)
                    = Inr msg)"
proof -
  have "fst (process_payment (PaymentProcessing_init g) order payment_method details)
          = fst (process_payment (PaymentProcessing_init g)
                   (order(''total_amount'' \<mapsto> PInt 0)) payment_method details)"
  proof -
    have "dict_get order ''total_amount'' (PInt 0) = PInt 0"
      using assms(1) by (simp add: dict_get_def)
    moreover
    have "dict_get (order(''total_amount'' \<mapsto> PInt 0)) ''total_amount'' (PInt 0) = PInt 0"
      by (simp add: dict_get_def)
    ultimately show ?thesis
      by (simp only: process_payment_supported [OF assms(2)] fst_conv)
  qed
  moreover
  have "snd (process_payment (PaymentProcessing_init g) order payment_method details)
          = [(payment_method, details, PInt 0)]"
    using assms by (simp add: process_payment_supported [OF assms(2)] dict_get_def)
  moreover
  have "\<exists>msg. fst (process_payment (PaymentProcessing_init None) order payment_method details)
                = Inr msg"
    using assms(2) by (auto simp add: fake_credit_card fake_paypal)
  ultimately show ?thesis by simp
qed

theorem process_payment_without_total_witness:
  "snd (process_payment (PaymentProcessing_init None) Map.empty ''paypal'' Map.empty)
     = [(''paypal'', Map.empty, PInt 0)]
   \<and> fst (process_payment (PaymentProcessing_init None) Map.empty ''paypal'' Map.empty)
     = fst (process_payment (PaymentProcessing_init None) [''total_amount'' \<mapsto> PInt 0]
              ''paypal'' Map.empty)
   \<and> (\<exists>msg. fst (process_payment (PaymentProcessing_init None) Map.empty ''paypal'' Map.empty)
              = Inr msg)"
proof -
  have no_total: "(Map.empty :: pydict) ''total_amount'' = None"
    by simp
  have supported: "''paypal'' = ''credit_card'' \<or> ''paypal'' = ''paypal''"
    by simp
  show ?thesis
    using process_payment_without_total [OF no_total supported, of None Map.empty]
    by blast
qed

section \<open>The cart\<close>

lemma lines_of_add_line:
  "lines_of (add_line n p q c) n =
     (case lines_of c n of
        [] \<Rightarrow> [\<lparr> name = n, unit_price = p, quantity = q \<rparr>]
      | l # ls \<Rightarrow> l\<lparr> unit_price := p, quantity := quantity l + q \<rparr> # ls)"
  by (induction c) (simp_all add: lines_of_def)

lemma add_item_admitted:
  "0 \<le> p \<Longrightarrow> 1 \<le> q \<Longrightarrow>
   add_item c n p q = Some (add_line n p q c, n, quantity_of (add_line n p q c) n)"
  by (simp add: add_item_def Let_def)

lemma lines_of_name:
  assumes "lines_of c n = [l]"
  shows "name l = n"
proof -
  have "l \<in> set (filter (\<lambda>l. name l = n) c)"
    using assms by (simp add: lines_of_def)
  then show ?thesis by simp
qed

text \<open>
  Adding to a cart that has one line for the name: the line stays the only one, its
  quantity grows by the quantities added and its price is the one of the last call.
\<close>

lemma add_items_existing:
  "admissible calls \<Longrightarrow> lines_of c n = [l] \<Longrightarrow>
   \<exists>c'. add_items c n calls = Some c'
      \<and> lines_of c' n =
          [\<lparr> name = n,
             unit_price = (if calls = [] then unit_price l else fst (last calls)),
             quantity = quantity l + sum_list (map snd calls) \<rparr>]"
proof (induction calls arbitrary: c l)
  case Nil
  then show ?case
    using lines_of_name [of c n l] by simp
next
  case (Cons pq calls)
  let ?c = "add_line n (fst pq) (snd pq) c"
  let ?l = "l\<lparr> unit_price := fst pq, quantity := quantity l + snd pq \<rparr>"
  from Cons.prems have adm: "0 \<le> fst pq" "1 \<le> snd pq" "admissible calls"
    by simp_all
  have step: "add_item c n (fst pq) (snd pq) = Some (?c, n, quantity_of ?c n)"
    using adm by (simp add: add_item_admitted)
  have line: "lines_of ?c n = [?l]"
    using Cons.prems(2) by (simp add: lines_of_add_line)
  from Cons.IH [OF adm(3) line] obtain c' where
    c': "add_items ?c n calls = Some c'"
    and l': "lines_of c' n =
          [\<lparr> name = n,
             unit_price = (if calls = [] then unit_price ?l else fst (last calls)),
             quantity = quantity ?l + sum_list (map snd calls) \<rparr>]"
    by blast
  show ?case
    using step c' l' by (simp add: add.assoc)
qed

text \<open>
  C8. For every sequence of one or more \<open>add_item\<close> calls with the same item name,
  each with a quantity of at least 1 and a unit price of at least 0, made on a cart
  that has no line for that name: every call is accepted, and the cart afterwards
  holds exactly one line for the name, whose quantity is the sum of the quantities
  added and whose subtotal is the unit price of the last call times that sum.
\<close>

theorem add_item_same_name_accumulates:
  assumes "calls \<noteq> []" and "admissible calls" and "lines_of c n = []"
  shows "\<exists>c'. add_items c n calls = Some c'
           \<and> lines_of c' n =
               [\<lparr> name = n, unit_price = fst (last calls),
                  quantity = sum_list (map snd calls) \<rparr>]
           \<and> map line_subtotal (lines_of c' n) =
               [fst (last calls) * of_int (sum_list (map snd calls))]"
proof -
  from assms(1) obtain pq rest where calls: "calls = pq # rest"
    by (cases calls) simp_all
  let ?c = "add_line n (fst pq) (snd pq) c"
  let ?l = "\<lparr> name = n, unit_price = fst pq, quantity = snd pq \<rparr>"
  from assms(2) calls have adm: "0 \<le> fst pq" "1 \<le> snd pq" "admissible rest"
    by simp_all
  have step: "add_item c n (fst pq) (snd pq) = Some (?c, n, quantity_of ?c n)"
    using adm by (simp add: add_item_admitted)
  have line: "lines_of ?c n = [?l]"
    using assms(3) by (simp add: lines_of_add_line)
  from add_items_existing [OF adm(3) line] obtain c' where
    c': "add_items ?c n rest = Some c'"
    and l': "lines_of c' n =
          [\<lparr> name = n,
             unit_price = (if rest = [] then unit_price ?l else fst (last rest)),
             quantity = quantity ?l + sum_list (map snd rest) \<rparr>]"
    by blast
  have "add_items c n calls = Some c'"
    using step c' calls by simp
  moreover have "lines_of c' n =
      [\<lparr> name = n, unit_price = fst (last calls), quantity = sum_list (map snd calls) \<rparr>]"
    using l' calls by simp
  ultimately show ?thesis
    by (simp add: line_subtotal_def)
qed

theorem add_item_same_name_accumulates_witness:
  "\<exists>c'. add_items [] ''Pizza'' [(10, 2), (12, 3)] = Some c'
      \<and> lines_of c' ''Pizza'' = [\<lparr> name = ''Pizza'', unit_price = 12, quantity = 5 \<rparr>]
      \<and> map line_subtotal (lines_of c' ''Pizza'') = [60]"
  using add_item_same_name_accumulates [of "[(10, 2), (12, 3)]" "[]" "''Pizza''"]
  by (simp add: lines_of_def)

section \<open>Order placement\<close>

text \<open>
  C6. For every cart with a non-negative subtotal, and non-negative policy constants,
  the totals returned by \<open>proceed_to_checkout\<close> have the cart's subtotal, satisfy
  \<open>total = subtotal + tax + delivery_fee\<close> exactly, have a subtotal, a tax, a delivery
  fee and a total that are all non-negative, and have a tax and a delivery fee that
  are functions of the policy and the subtotal alone.
\<close>

theorem checkout_totals_add_up:
  assumes "0 \<le> cart_subtotal (cart op)"
    and "0 \<le> tax_rate pol" and "0 \<le> flat_delivery_fee pol"
  shows "subtotal (total_info (proceed_to_checkout pol op)) = cart_subtotal (cart op)
       \<and> total (total_info (proceed_to_checkout pol op)) =
           subtotal (total_info (proceed_to_checkout pol op))
           + tax (total_info (proceed_to_checkout pol op))
           + delivery_fee (total_info (proceed_to_checkout pol op))
       \<and> 0 \<le> subtotal (total_info (proceed_to_checkout pol op))
       \<and> 0 \<le> tax (total_info (proceed_to_checkout pol op))
       \<and> 0 \<le> delivery_fee (total_info (proceed_to_checkout pol op))
       \<and> 0 \<le> total (total_info (proceed_to_checkout pol op))
       \<and> tax (total_info (proceed_to_checkout pol op)) =
           tax_of pol (subtotal (total_info (proceed_to_checkout pol op)))
       \<and> delivery_fee (total_info (proceed_to_checkout pol op)) =
           delivery_fee_of pol (subtotal (total_info (proceed_to_checkout pol op)))"
  using assms
  by (simp add: proceed_to_checkout_def totals_def tax_of_def delivery_fee_of_def)

theorem checkout_totals_add_up_witness:
  "subtotal (total_info (proceed_to_checkout
       \<lparr> tax_rate = 1 / 10, flat_delivery_fee = 5, delivery_offset = 45 \<rparr>
       \<lparr> cart = [\<lparr> name = ''Burger'', unit_price = 8, quantity = 2 \<rparr>],
         user_profile = \<lparr> delivery_address = Some ''123 Main St'', order_history = [] \<rparr>,
         restaurant_menu = [''Burger'', ''Pizza''], special_instructions = '''',
         payment_collaborator = None \<rparr>)) = 16
   \<and> total (total_info (proceed_to_checkout
       \<lparr> tax_rate = 1 / 10, flat_delivery_fee = 5, delivery_offset = 45 \<rparr>
       \<lparr> cart = [\<lparr> name = ''Burger'', unit_price = 8, quantity = 2 \<rparr>],
         user_profile = \<lparr> delivery_address = Some ''123 Main St'', order_history = [] \<rparr>,
         restaurant_menu = [''Burger'', ''Pizza''], special_instructions = '''',
         payment_collaborator = None \<rparr>)) =
      16 + tax (total_info (proceed_to_checkout
       \<lparr> tax_rate = 1 / 10, flat_delivery_fee = 5, delivery_offset = 45 \<rparr>
       \<lparr> cart = [\<lparr> name = ''Burger'', unit_price = 8, quantity = 2 \<rparr>],
         user_profile = \<lparr> delivery_address = Some ''123 Main St'', order_history = [] \<rparr>,
         restaurant_menu = [''Burger'', ''Pizza''], special_instructions = '''',
         payment_collaborator = None \<rparr>))
         + delivery_fee (total_info (proceed_to_checkout
       \<lparr> tax_rate = 1 / 10, flat_delivery_fee = 5, delivery_offset = 45 \<rparr>
       \<lparr> cart = [\<lparr> name = ''Burger'', unit_price = 8, quantity = 2 \<rparr>],
         user_profile = \<lparr> delivery_address = Some ''123 Main St'', order_history = [] \<rparr>,
         restaurant_menu = [''Burger'', ''Pizza''], special_instructions = '''',
         payment_collaborator = None \<rparr>))"
  using checkout_totals_add_up
    [of "\<lparr> cart = [\<lparr> name = ''Burger'', unit_price = 8, quantity = 2 \<rparr>],
         user_profile = \<lparr> delivery_address = Some ''123 Main St'', order_history = [] \<rparr>,
         restaurant_menu = [''Burger'', ''Pizza''], special_instructions = '''',
         payment_collaborator = None \<rparr>"
        "\<lparr> tax_rate = 1 / 10, flat_delivery_fee = 5, delivery_offset = 45 \<rparr>"]
  by (simp add: cart_subtotal_def line_subtotal_def)

text \<open>
  C7. For every order placement, \<open>validate_order\<close> reports a failure with a message
  when the cart has no line, whatever the delivery address is, and when the delivery
  address is missing or empty, whatever the cart holds; it succeeds otherwise.
\<close>

theorem validate_order_cases:
  "(cart op = [] \<longrightarrow>
      \<not> success (validate_order op) \<and> message (validate_order op) \<noteq> None)
   \<and> (delivery_address (user_profile op) = None
        \<or> delivery_address (user_profile op) = Some [] \<longrightarrow>
      \<not> success (validate_order op) \<and> message (validate_order op) \<noteq> None)
   \<and> (cart op \<noteq> [] \<and> (\<exists>a. delivery_address (user_profile op) = Some a \<and> a \<noteq> []) \<longrightarrow>
      success (validate_order op))"
  by (auto simp add: validate_order_def address_given_def)

theorem validate_order_cases_witness:
  "\<not> success (validate_order
       \<lparr> cart = [],
         user_profile = \<lparr> delivery_address = Some ''123 Main St'', order_history = [] \<rparr>,
         restaurant_menu = [''Burger''], special_instructions = '''',
         payment_collaborator = None \<rparr>)
   \<and> \<not> success (validate_order
       \<lparr> cart = [\<lparr> name = ''Burger'', unit_price = 8, quantity = 2 \<rparr>],
         user_profile = \<lparr> delivery_address = Some '''', order_history = [] \<rparr>,
         restaurant_menu = [''Burger''], special_instructions = '''',
         payment_collaborator = None \<rparr>)
   \<and> success (validate_order
       \<lparr> cart = [\<lparr> name = ''Burger'', unit_price = 8, quantity = 2 \<rparr>],
         user_profile = \<lparr> delivery_address = Some ''123 Main St'', order_history = [] \<rparr>,
         restaurant_menu = [''Burger''], special_instructions = '''',
         payment_collaborator = None \<rparr>)"
  using validate_order_cases
      [of "\<lparr> cart = [],
         user_profile = \<lparr> delivery_address = Some ''123 Main St'', order_history = [] \<rparr>,
         restaurant_menu = [''Burger''], special_instructions = '''',
         payment_collaborator = None \<rparr>"]
    validate_order_cases
      [of "\<lparr> cart = [\<lparr> name = ''Burger'', unit_price = 8, quantity = 2 \<rparr>],
         user_profile = \<lparr> delivery_address = Some '''', order_history = [] \<rparr>,
         restaurant_menu = [''Burger''], special_instructions = '''',
         payment_collaborator = None \<rparr>"]
    validate_order_cases
      [of "\<lparr> cart = [\<lparr> name = ''Burger'', unit_price = 8, quantity = 2 \<rparr>],
         user_profile = \<lparr> delivery_address = Some ''123 Main St'', order_history = [] \<rparr>,
         restaurant_menu = [''Burger''], special_instructions = '''',
         payment_collaborator = None \<rparr>"]
  by simp

lemma fold_max_upper: "a \<le> fold max xs (a::nat)"
proof (induction xs arbitrary: a)
  case Nil
  show ?case by simp
next
  case (Cons y ys)
  have "a \<le> max y a" by simp
  also have "\<dots> \<le> fold max ys (max y a)" by (rule Cons.IH)
  finally show ?case by simp
qed

lemma fold_max_member: "x \<in> set xs \<Longrightarrow> x \<le> fold max xs (a::nat)"
proof (induction xs arbitrary: a)
  case Nil
  then show ?case by simp
next
  case (Cons y ys)
  show ?case
  proof (cases "x = y")
    case True
    have "y \<le> max y a" by simp
    also have "\<dots> \<le> fold max ys (max y a)" by (rule fold_max_upper)
    finally show ?thesis using True by simp
  next
    case False
    with Cons.prems have "x \<in> set ys" by simp
    then show ?thesis by (simp add: Cons.IH)
  qed
qed

lemma fresh_order_id_new: "fresh_order_id h \<notin> order_id ` set h"
proof
  assume "fresh_order_id h \<in> order_id ` set h"
  then have "fresh_order_id h \<in> set (map order_id h)" by simp
  then have "fresh_order_id h \<le> fold max (map order_id h) 0"
    by (rule fold_max_member)
  then show False by (simp add: fresh_order_id_def)
qed

text \<open>
  C5. For every order placement with a cart that is not empty, a delivery address that
  is not empty and no payment collaborator wired in, \<open>confirm_order\<close> succeeds:
  it returns success, an order identifier, an estimated delivery and the message
  \<open>Order confirmed\<close>, and it appends one order record to the order history of the
  user profile, with that identifier (which no earlier record has), the names of the
  cart's items and the total of the checkout.
\<close>

theorem confirm_order_minimal_flow:
  assumes "cart op \<noteq> []"
    and "delivery_address (user_profile op) = Some a" and "a \<noteq> []"
    and "payment_collaborator op = None"
  shows "\<exists>oid r.
           fst (confirm_order pol now op payment_method payment_details) =
             \<lparr> success = True, message = Some ''Order confirmed'',
               receipt_order_id = Some oid,
               estimated_delivery = Some (now + delivery_offset pol) \<rparr>
         \<and> order_history (user_profile (snd (confirm_order pol now op payment_method
              payment_details))) = order_history (user_profile op) @ [r]
         \<and> order_id r = oid
         \<and> oid \<notin> order_id ` set (order_history (user_profile op))
         \<and> items r = map name (cart op)
         \<and> order_total r = total (total_info (proceed_to_checkout pol op))"
proof -
  have v: "success (validate_order op)"
    using assms by (simp add: validate_order_def address_given_def)
  show ?thesis
    using v assms(4) fresh_order_id_new [of "order_history (user_profile op)"]
    by (simp add: confirm_order_def Let_def)
qed

theorem confirm_order_minimal_flow_witness:
  "\<exists>oid r.
     fst (confirm_order \<lparr> tax_rate = 1 / 10, flat_delivery_fee = 5, delivery_offset = 45 \<rparr> 0
            \<lparr> cart = [\<lparr> name = ''Pizza'', unit_price = 10, quantity = 2 \<rparr>],
              user_profile = \<lparr> delivery_address = Some ''123 Elm St'', order_history = [] \<rparr>,
              restaurant_menu = [''Pizza'', ''Burger''], special_instructions = [],
              payment_collaborator = None \<rparr> PaymentMethod None) =
       \<lparr> success = True, message = Some ''Order confirmed'',
         receipt_order_id = Some oid, estimated_delivery = Some 45 \<rparr>
     \<and> order_history (user_profile (snd (confirm_order
            \<lparr> tax_rate = 1 / 10, flat_delivery_fee = 5, delivery_offset = 45 \<rparr> 0
            \<lparr> cart = [\<lparr> name = ''Pizza'', unit_price = 10, quantity = 2 \<rparr>],
              user_profile = \<lparr> delivery_address = Some ''123 Elm St'', order_history = [] \<rparr>,
              restaurant_menu = [''Pizza'', ''Burger''], special_instructions = [],
              payment_collaborator = None \<rparr> PaymentMethod None))) = [r]
     \<and> order_id r = oid \<and> items r = [''Pizza'']"
proof -
  let ?pol = "\<lparr> tax_rate = 1 / 10, flat_delivery_fee = 5, delivery_offset = 45 \<rparr>"
  let ?op = "\<lparr> cart = [\<lparr> name = ''Pizza'', unit_price = 10, quantity = 2 \<rparr>],
              user_profile = \<lparr> delivery_address = Some ''123 Elm St'', order_history = [] \<rparr>,
              restaurant_menu = [''Pizza'', ''Burger''], special_instructions = [],
              payment_collaborator = None \<rparr>"
  from confirm_order_minimal_flow [of ?op "''123 Elm St''" ?pol 0 PaymentMethod None]
  obtain oid r where
    "fst (confirm_order ?pol 0 ?op PaymentMethod None) =
       \<lparr> success = True, message = Some ''Order confirmed'',
         receipt_order_id = Some oid,
         estimated_delivery = Some (0 + delivery_offset ?pol) \<rparr>"
    and "order_history (user_profile (snd (confirm_order ?pol 0 ?op PaymentMethod None)))
           = order_history (user_profile ?op) @ [r]"
    and "order_id r = oid" and "items r = map name (cart ?op)"
    by auto
  then show ?thesis
    by (intro exI [of _ oid] exI [of _ r]) simp
qed

end
